theory Spec2Isabelle
  imports Main "HOL-Library.Word" "HOL-Library.Multiset"
    "HOL-Library.Char_ord" "HOL-Library.List_Lexorder"
begin

section \<open>The Javascript runtime provider of the Nakama server\<close>

text \<open>
  A shallow embedding of the server's Javascript runtime provider: the module cache,
  the callback registry of an instance, the pool of instances (\<^verbatim>\<open>Get\<close>, \<^verbatim>\<open>Put\<close>, the
  constructor's warm-up), the invocation bridge with the context object of
  \<^verbatim>\<open>runtime_javascript_context.go\<close>, and the hook dispatchers \<^verbatim>\<open>Rpc\<close>,
  \<^verbatim>\<open>BeforeRt\<close> and \<^verbatim>\<open>BeforeReq\<close>.

  Go strings are byte strings, compared byte by byte: \<^typ>\<open>string\<close> with the order of
  \<^verbatim>\<open>Char_ord\<close> and \<^verbatim>\<open>List_Lexorder\<close>. A pointer that may be nil is an
  \<^typ>\<open>'a option\<close>. The script engine and the JSON and protobuf codecs are libraries:
  a script callable is a function from its arguments to what the call yields, and the
  codecs are fields of a record of functions.
\<close>

subsection \<open>Module cache\<close>

record 'p RuntimeJSModule =
  Name :: string
  Path :: string
  Program :: 'p

record 'p RuntimeJSModuleCache =
  Names :: "string list"
  Modules :: "string \<rightharpoonup> 'p RuntimeJSModule"

text \<open>\<^verbatim>\<open>sort.Strings\<close>: ascending byte-wise order.\<close>

definition sort_Strings :: "string list \<Rightarrow> string list" where
  "sort_Strings xs = sort xs"

definition Add :: "'p RuntimeJSModule \<Rightarrow> 'p RuntimeJSModuleCache \<Rightarrow> 'p RuntimeJSModuleCache" where
  "Add m mc =
     (let mc1 = mc\<lparr>Names := Names mc @ [Name m]\<rparr>;
          mc2 = mc1\<lparr>Modules := (Modules mc1)(Name m \<mapsto> m)\<rparr>
      in mc2\<lparr>Names := sort_Strings (Names mc2)\<rparr>)"

text \<open>The cache as \<^verbatim>\<open>cacheJavascriptModules\<close> creates it, and a run of \<^verbatim>\<open>Add\<close> calls.\<close>

definition empty_cache :: "'p RuntimeJSModuleCache" where
  "empty_cache = \<lparr>Names = [], Modules = Map.empty\<rparr>"

definition add_all :: "'p RuntimeJSModule list \<Rightarrow> 'p RuntimeJSModuleCache \<Rightarrow> 'p RuntimeJSModuleCache" where
  "add_all ms mc = foldl (\<lambda>c m. Add m c) mc ms"

text \<open>The module most recently added under a name.\<close>

definition latest :: "'p RuntimeJSModule list \<Rightarrow> string \<Rightarrow> 'p RuntimeJSModule option" where
  "latest ms n = find (\<lambda>m. Name m = n) (rev ms)"

subsection \<open>Callback registry\<close>

text \<open>
  Modelled from the spec: the declaration of \<^verbatim>\<open>RuntimeExecutionMode\<close> is not in the
  source at hand; these are the modes the spec lists, which are the ones
  \<^verbatim>\<open>GetCallback\<close> switches on.
\<close>

datatype RuntimeExecutionMode =
    RuntimeExecutionModeRPC
  | RuntimeExecutionModeBefore
  | RuntimeExecutionModeAfter
  | RuntimeExecutionModeMatchmaker
  | RuntimeExecutionModeTournamentEnd
  | RuntimeExecutionModeTournamentReset
  | RuntimeExecutionModeLeaderboardReset

text \<open>
  Script values as the dispatchers see them. \<^verbatim>\<open>goja.Value\<close> is an interface: the Go
  nil of that type is \<open>None\<close> of \<^typ>\<open>'a option\<close>, not a script value.
\<close>

datatype js_value =
    JsUndefined
  | JsNull
  | JsBool bool
  | JsNumber int
  | JsString string
  | JsArray "js_value list"
  | JsObject "(string \<times> js_value) list"

text \<open>
  The context object of \<^verbatim>\<open>NewRuntimeJsContext\<close>: a property that is not set is
  \<open>None\<close>.
\<close>

record js_context =
  ctx_node :: string
  ctx_env :: js_value
  ctx_execution_mode :: RuntimeExecutionMode
  ctx_query_params :: "(string \<rightharpoonup> string list) option"
  ctx_user_session_exp :: "int option"
  ctx_user_id :: "string option"
  ctx_username :: "string option"
  ctx_vars :: "(string \<rightharpoonup> string) option"
  ctx_session_id :: "string option"
  ctx_client_ip :: "string option"
  ctx_client_port :: "string option"

definition NewRuntimeJsContext ::
  "string \<Rightarrow> js_value \<Rightarrow> RuntimeExecutionMode \<Rightarrow> (string \<rightharpoonup> string list) option \<Rightarrow> int \<Rightarrow>
   string \<Rightarrow> string \<Rightarrow> (string \<rightharpoonup> string) option \<Rightarrow> string \<Rightarrow> string \<Rightarrow> string \<Rightarrow> js_context" where
  "NewRuntimeJsContext nodeName envv mode queryParams sessionExpiry userID username vars
       sessionID clientIP clientPort =
     \<lparr>ctx_node = nodeName, ctx_env = envv, ctx_execution_mode = mode,
      ctx_query_params = (if queryParams \<noteq> None then queryParams else None),
      ctx_user_session_exp = (if sessionExpiry \<noteq> 0 then Some sessionExpiry else None),
      ctx_user_id = (if userID \<noteq> [] then Some userID else None),
      ctx_username = (if username \<noteq> [] then Some username else None),
      ctx_vars = (if vars \<noteq> None then vars else None),
      ctx_session_id = (if sessionID \<noteq> [] then Some sessionID else None),
      ctx_client_ip = (if clientIP \<noteq> [] then Some clientIP else None),
      ctx_client_port = (if clientPort \<noteq> [] then Some clientPort else None)\<rparr>"

text \<open>
  What calling a \<^verbatim>\<open>goja.Callable\<close> gives: a value (possibly the nil interface), an
  uncaught script exception (\<^verbatim>\<open>*goja.Exception\<close>, with its \<^verbatim>\<open>Error()\<close> and
  \<^verbatim>\<open>String()\<close> texts), or another error. An argument is the context object or a
  script value.
\<close>

datatype call_result =
    Yields "js_value option"
  | Throws string string
  | Fails string

datatype js_arg = ArgCtx js_context | ArgVal js_value

type_synonym Callable = "js_arg list \<Rightarrow> call_result"

record RuntimeJavascriptCallbacks =
  cb_Rpc :: "string \<rightharpoonup> Callable"
  cb_Before :: "string \<rightharpoonup> Callable"
  cb_After :: "string \<rightharpoonup> Callable"

record RuntimeJS =
  vm :: nat
  node :: string
  env :: js_value
  jsLoggerInst :: js_value
  nkInst :: js_value
  callbacks :: RuntimeJavascriptCallbacks

fun GetCallback :: "RuntimeJS \<Rightarrow> RuntimeExecutionMode \<Rightarrow> string \<Rightarrow> Callable option" where
  "GetCallback r RuntimeExecutionModeRPC key = cb_Rpc (callbacks r) key"
| "GetCallback r RuntimeExecutionModeBefore key = cb_Before (callbacks r) key"
| "GetCallback r RuntimeExecutionModeAfter key = cb_After (callbacks r) key"
| "GetCallback r RuntimeExecutionModeMatchmaker key = None"
| "GetCallback r RuntimeExecutionModeTournamentEnd key = None"
| "GetCallback r RuntimeExecutionModeTournamentReset key = None"
| "GetCallback r RuntimeExecutionModeLeaderboardReset key = None"

subsection \<open>Instance pool\<close>

text \<open>
  \<^verbatim>\<open>poolCh\<close> is a buffered channel: its queue and its capacity. \<^verbatim>\<open>currentCount\<close>
  is an atomic \<^verbatim>\<open>uint32\<close>, so \<^verbatim>\<open>Inc\<close> wraps. \<^verbatim>\<open>newFn\<close> makes a new instance at
  each call: it is a function of the number of calls before, which \<open>built\<close> counts
  (\<open>built\<close> is not a field of the Go struct). \<open>warned\<close> holds the warnings written to
  the provider's logger.
\<close>

record RuntimeProviderJS =
  poolCh :: "RuntimeJS list"
  poolCap :: nat
  maxCount :: "32 word"
  currentCount :: "32 word"
  newFn :: "nat \<Rightarrow> RuntimeJS"
  built :: nat
  warned :: "string list"

text \<open>
  A \<^verbatim>\<open>select\<close> over \<^verbatim>\<open><-ctx.Done()\<close> and \<^verbatim>\<open><-rp.poolCh\<close>: a ready case is taken,
  either one when both are ready (the runtime chooses; here the third argument does),
  and \<open>NoneReady\<close> leads to the \<^verbatim>\<open>default\<close> case or, without one, to waiting.
\<close>

datatype select_case = CtxDone | PoolRecv | NoneReady

definition select_ready :: "bool \<Rightarrow> bool \<Rightarrow> bool \<Rightarrow> select_case" where
  "select_ready doneReady recvReady preferDone =
     (if doneReady \<and> recvReady then (if preferDone then CtxDone else PoolRecv)
      else if doneReady then CtxDone
      else if recvReady then PoolRecv
      else NoneReady)"

text \<open>
  What the caller's \<^verbatim>\<open>context.Context\<close> and the scheduler contribute to one call of
  \<^verbatim>\<open>Get\<close>: whether the context is done at the first and at the second \<^verbatim>\<open>select\<close>,
  and the case a \<^verbatim>\<open>select\<close> takes when both are ready.
\<close>

record Context =
  done_entry :: bool
  done_wait :: bool
  prefer_done :: bool

text \<open>
  The result of \<^verbatim>\<open>Get\<close>: an instance with a nil error, a nil instance with
  \<^verbatim>\<open>ctx.Err()\<close>, or no return while the second \<^verbatim>\<open>select\<close> has no ready case.
\<close>

datatype acquired = Runtime RuntimeJS | CtxErr | Blocked

definition wait_select :: "Context \<Rightarrow> RuntimeProviderJS \<Rightarrow> acquired \<times> RuntimeProviderJS" where
  "wait_select ctx rp =
     (case select_ready (done_wait ctx) (poolCh rp \<noteq> []) (prefer_done ctx) of
        CtxDone \<Rightarrow> (CtxErr, rp)
      | PoolRecv \<Rightarrow>
          (case poolCh rp of r # rs \<Rightarrow> (Runtime r, rp\<lparr>poolCh := rs\<rparr>) | [] \<Rightarrow> (Blocked, rp))
      | NoneReady \<Rightarrow> (Blocked, rp))"

text \<open>\<^verbatim>\<open>Get\<close> run without another goroutine touching the pool in between.\<close>

definition Get :: "Context \<Rightarrow> RuntimeProviderJS \<Rightarrow> acquired \<times> RuntimeProviderJS" where
  "Get ctx rp =
     (case select_ready (done_entry ctx) (poolCh rp \<noteq> []) (prefer_done ctx) of
        CtxDone \<Rightarrow> (CtxErr, rp)
      | PoolRecv \<Rightarrow>
          (case poolCh rp of r # rs \<Rightarrow> (Runtime r, rp\<lparr>poolCh := rs\<rparr>) | [] \<Rightarrow> (Blocked, rp))
      | NoneReady \<Rightarrow>
          if currentCount rp \<ge> maxCount rp then wait_select ctx rp
          else
            let rp1 = rp\<lparr>currentCount := currentCount rp + 1\<rparr>;
                currentCount' = currentCount rp1
            in if currentCount' > maxCount rp1 then wait_select ctx rp1
               else (Runtime (newFn rp1 (built rp1)), rp1\<lparr>built := Suc (built rp1)\<rparr>))"

text \<open>
  \<^verbatim>\<open>Put\<close>: a \<^verbatim>\<open>select\<close> with a send and a \<^verbatim>\<open>default\<close>. (With capacity 0 a send
  would need a waiting receiver; a pool of capacity 0 never holds an instance.)
\<close>

definition Put :: "RuntimeJS \<Rightarrow> RuntimeProviderJS \<Rightarrow> RuntimeProviderJS" where
  "Put r rp =
     (if length (poolCh rp) < poolCap rp then rp\<lparr>poolCh := poolCh rp @ [r]\<rparr>
      else rp\<lparr>warned := warned rp @ [''Runtime pool full, discarding Lua runtime'']\<rparr>)"

text \<open>
  The pool part of \<^verbatim>\<open>NewRuntimeProviderJS\<close>, given the names of the module cache and
  the \<^verbatim>\<open>newFn\<close> closure. \<^verbatim>\<open>MinCount\<close> and \<^verbatim>\<open>MaxCount\<close> are Go \<^verbatim>\<open>int\<close>s, converted
  with \<^verbatim>\<open>uint32(...)\<close>. \<^verbatim>\<open>make(chan, n)\<close> panics for a negative \<open>n\<close>; the warm-up loop
  sends \<^verbatim>\<open>MinCount\<close> instances and, with no receiver yet, never returns once the
  channel is full.
\<close>

datatype startup_failure = MakeChanPanics | WarmUpHangs

definition NewRuntimeProviderJS ::
  "int \<Rightarrow> int \<Rightarrow> string list \<Rightarrow> (nat \<Rightarrow> RuntimeJS) \<Rightarrow> startup_failure + RuntimeProviderJS" where
  "NewRuntimeProviderJS MinCount MaxCount names nf =
     (if MaxCount < 0 then Inl MakeChanPanics
      else
        let rp = \<lparr>poolCh = [], poolCap = nat MaxCount, maxCount = word_of_int MaxCount,
                  currentCount = word_of_int MinCount, newFn = nf, built = 0, warned = []\<rparr>
        in if length names > 0 then
             (if MinCount > MaxCount then Inl WarmUpHangs
              else Inr (rp\<lparr>poolCh := map nf [0..<nat MinCount], built := nat MinCount\<rparr>))
           else Inr rp)"

subsection \<open>Concurrent callers of the pool\<close>

text \<open>
  Several goroutines share one provider. \<^verbatim>\<open>Get\<close> touches the shared state at its
  \<^verbatim>\<open>select\<close>s, at \<^verbatim>\<open>currentCount.Load()\<close> and at \<^verbatim>\<open>currentCount.Inc()\<close>; between
  two of these another goroutine may run. A caller is outside \<^verbatim>\<open>Get\<close>, has passed
  the \<^verbatim>\<open>Load\<close> test and not yet incremented, has incremented and holds the value
  \<^verbatim>\<open>Inc\<close> returned, waits at the second \<^verbatim>\<open>select\<close>, or holds an instance.
\<close>

datatype caller = Outside | Loaded | Incremented "32 word" | Waiting | Holding RuntimeJS

fun get_step :: "bool \<Rightarrow> bool \<Rightarrow> caller \<Rightarrow> RuntimeProviderJS \<Rightarrow> caller \<times> RuntimeProviderJS" where
  "get_step d k Outside rp =
     (case select_ready d (poolCh rp \<noteq> []) k of
        CtxDone \<Rightarrow> (Outside, rp)
      | PoolRecv \<Rightarrow>
          (case poolCh rp of r # rs \<Rightarrow> (Holding r, rp\<lparr>poolCh := rs\<rparr>) | [] \<Rightarrow> (Outside, rp))
      | NoneReady \<Rightarrow>
          if currentCount rp \<ge> maxCount rp then (Waiting, rp) else (Loaded, rp))"
| "get_step d k Loaded rp =
     (let rp1 = rp\<lparr>currentCount := currentCount rp + 1\<rparr>
      in (Incremented (currentCount rp1), rp1))"
| "get_step d k (Incremented v) rp =
     (if v > maxCount rp then (Waiting, rp)
      else (Holding (newFn rp (built rp)), rp\<lparr>built := Suc (built rp)\<rparr>))"
| "get_step d k Waiting rp =
     (case select_ready d (poolCh rp \<noteq> []) k of
        CtxDone \<Rightarrow> (Outside, rp)
      | PoolRecv \<Rightarrow>
          (case poolCh rp of r # rs \<Rightarrow> (Holding r, rp\<lparr>poolCh := rs\<rparr>) | [] \<Rightarrow> (Waiting, rp))
      | NoneReady \<Rightarrow> (Waiting, rp))"
| "get_step d k (Holding r) rp = (Holding r, rp)"

text \<open>
  One step of the whole: caller \<open>t\<close> runs the next piece of its \<^verbatim>\<open>Get\<close> (with its
  context done or not, and the \<^verbatim>\<open>select\<close> preference), releases the instance it
  holds with \<^verbatim>\<open>Put\<close>, or returns without \<^verbatim>\<open>Put\<close>. A step that does not apply
  leaves everything as it is.
\<close>

datatype action = Advance nat bool bool | Release nat | Forget nat

fun step :: "action \<Rightarrow> RuntimeProviderJS \<times> caller list \<Rightarrow> RuntimeProviderJS \<times> caller list" where
  "step (Advance t d k) (rp, cs) =
     (if t < length cs then
        (case get_step d k (cs ! t) rp of (c', rp') \<Rightarrow> (rp', cs[t := c']))
      else (rp, cs))"
| "step (Release t) (rp, cs) =
     (if t < length cs then
        (case cs ! t of Holding r \<Rightarrow> (Put r rp, cs[t := Outside]) | _ \<Rightarrow> (rp, cs))
      else (rp, cs))"
| "step (Forget t) (rp, cs) =
     (if t < length cs then
        (case cs ! t of Holding r \<Rightarrow> (rp, cs[t := Outside]) | _ \<Rightarrow> (rp, cs))
      else (rp, cs))"

definition run :: "action list \<Rightarrow> RuntimeProviderJS \<times> caller list \<Rightarrow> RuntimeProviderJS \<times> caller list" where
  "run acts cfg = foldl (\<lambda>c a. step a c) cfg acts"

text \<open>Counting callers: those that hold an instance, those between \<^verbatim>\<open>Load\<close> and
  \<^verbatim>\<open>Inc\<close>, and those whose \<^verbatim>\<open>Inc\<close> returned a value within \<open>M\<close>.\<close>

fun holding :: "caller \<Rightarrow> nat" where
  "holding (Holding r) = 1"
| "holding c = 0"

fun loaded :: "caller \<Rightarrow> nat" where
  "loaded Loaded = 1"
| "loaded c = 0"

fun admitted :: "32 word \<Rightarrow> caller \<Rightarrow> nat" where
  "admitted M (Incremented v) = (if v \<le> M then 1 else 0)"
| "admitted M c = 0"

definition checked_out :: "caller list \<Rightarrow> nat" where
  "checked_out cs = sum_list (map holding cs)"

text \<open>
  The invariant of the pool under any interleaving, with \<open>d\<close> the part of the counter
  that stands for no instance.
\<close>

definition pool_inv :: "nat \<Rightarrow> RuntimeProviderJS \<times> caller list \<Rightarrow> bool" where
  "pool_inv d cfg =
     (case cfg of (rp, cs) \<Rightarrow>
        built rp + sum_list (map (admitted (maxCount rp)) cs) + d \<le> unat (currentCount rp)
      \<and> built rp + sum_list (map (admitted (maxCount rp)) cs) + d \<le> unat (maxCount rp)
      \<and> (0 < sum_list (map loaded cs) \<longrightarrow>
           unat (currentCount rp) + sum_list (map loaded cs) \<le> unat (maxCount rp) + length cs)
      \<and> unat (maxCount rp) + length cs < 2 ^ 32
      \<and> length (poolCh rp) + checked_out cs \<le> built rp)"

text \<open>
  What a caller's state says about its \<^verbatim>\<open>Get\<close>: it returned an instance, it returned
  the context's error, or it has not returned.
\<close>

fun returned :: "caller \<times> RuntimeProviderJS \<Rightarrow> acquired \<times> RuntimeProviderJS" where
  "returned (Holding r, rp) = (Runtime r, rp)"
| "returned (Outside, rp) = (CtxErr, rp)"
| "returned (c, rp) = (Blocked, rp)"

subsection \<open>Invocation bridge\<close>

datatype Code = OK | NotFound | Internal

datatype JsErrorType = JsErrorException | JsErrorRuntime

fun JsErrorType_String :: "JsErrorType \<Rightarrow> string" where
  "JsErrorType_String JsErrorException = ''exception''"
| "JsErrorType_String e = []"

record jsError =
  StackTrace :: string
  Type :: string
  Message :: string
  error_text :: string

text \<open>
  The errors the dispatchers return: \<^verbatim>\<open>ctx.Err()\<close>, the package variable
  \<^verbatim>\<open>ErrRuntimeRPCNotFound\<close>, an \<^verbatim>\<open>errors.New\<close> with its text, or a \<^verbatim>\<open>*jsError\<close>.
\<close>

datatype error = CtxError | ErrRuntimeRPCNotFound | ErrorsNew string | JsErr jsError

definition newJsExceptionError :: "JsErrorType \<Rightarrow> string \<Rightarrow> string \<Rightarrow> jsError" where
  "newJsExceptionError t err st =
     \<lparr>StackTrace = st, Type = JsErrorType_String t, Message = [], error_text = err\<rparr>"

definition newJsError :: "JsErrorType \<Rightarrow> string \<Rightarrow> jsError" where
  "newJsError t err =
     \<lparr>StackTrace = [], Type = JsErrorType_String t, Message = err, error_text = err\<rparr>"

text \<open>
  The libraries the bridge calls, over a message type \<^typ>\<open>'m\<close> and the type \<^typ>\<open>'g\<close> of
  a non-nil \<^verbatim>\<open>map[string]interface{}\<close>: the \<^verbatim>\<open>jsonpb\<close> marshaler (\<open>None\<close> is an
  error), \<^verbatim>\<open>json.Unmarshal\<close> into a map variable (\<open>None\<close> is an error, \<open>Some None\<close>
  leaves the map nil), the engine's \<^verbatim>\<open>ToValue\<close> on a map, \<^verbatim>\<open>json.Marshal\<close> of a
  script value, and the \<^verbatim>\<open>jsonpb\<close> unmarshaler, which writes into the message it is
  given and says whether it returned a nil error.
\<close>

record ('m, 'g) libs =
  MarshalToString :: "'m \<Rightarrow> string option"
  json_Unmarshal :: "string \<Rightarrow> 'g option option"
  map_ToValue :: "'g option \<Rightarrow> js_value"
  json_Marshal :: "js_value \<Rightarrow> string option"
  jsonpb_Unmarshal :: "string \<Rightarrow> 'm \<Rightarrow> bool \<times> 'm"

datatype 'g payload = PString string | PMap "'g option"

fun ToValue :: "('m, 'g) libs \<Rightarrow> 'g payload \<Rightarrow> js_value" where
  "ToValue lb (PString s) = JsString s"
| "ToValue lb (PMap m) = map_ToValue lb m"

text \<open>The caller's session data, passed on to the context object.\<close>

record session =
  userID :: string
  username :: string
  vars :: "(string \<rightharpoonup> string) option"
  expiry :: int
  sessionID :: string
  clientIP :: string
  clientPort :: string

text \<open>The argument slice \<^verbatim>\<open>jv\<close> that \<^verbatim>\<open>InvokeFunction\<close> builds.\<close>

definition call_args ::
  "('m, 'g) libs \<Rightarrow> RuntimeJS \<Rightarrow> RuntimeExecutionMode \<Rightarrow> (string \<rightharpoonup> string list) option \<Rightarrow>
   session \<Rightarrow> 'g payload list \<Rightarrow> js_arg list" where
  "call_args lb r execMode queryParams ss payloads =
     (let ctx = NewRuntimeJsContext (node r) (env r) execMode queryParams (expiry ss)
                  (userID ss) (username ss) (vars ss) (sessionID ss) (clientIP ss) (clientPort ss);
          args = [ArgCtx ctx, ArgVal (jsLoggerInst r), ArgVal (nkInst r)]
      in args @ map (\<lambda>p. ArgVal (ToValue lb p)) payloads)"

definition InvokeFunction ::
  "('m, 'g) libs \<Rightarrow> RuntimeJS \<Rightarrow> RuntimeExecutionMode \<Rightarrow> string \<Rightarrow> Callable \<Rightarrow>
   (string \<rightharpoonup> string list) option \<Rightarrow> session \<Rightarrow> 'g payload list \<Rightarrow>
   js_value option \<times> error option \<times> Code" where
  "InvokeFunction lb r execMode ident fn queryParams ss payloads =
     (let jv = call_args lb r execMode queryParams ss payloads
      in case fn jv of
           Throws msg st \<Rightarrow>
             (None, Some (JsErr (newJsExceptionError JsErrorException msg st)), Internal)
         | Fails msg \<Rightarrow> (None, Some (JsErr (newJsError JsErrorRuntime msg)), Internal)
         | Yields retVal \<Rightarrow>
             if retVal = None \<or> retVal = Some JsUndefined \<or> retVal = Some JsNull
             then (None, None, OK)
             else (retVal, None, OK))"

subsection \<open>Hook dispatchers\<close>

text \<open>
  A dispatcher returns, panics, or does not return while its \<^verbatim>\<open>Get\<close> waits.
  \<^verbatim>\<open>Export().(string)\<close> succeeds on a script string only; a method call on the nil
  interface value panics.
\<close>

datatype 'a outcome = Return 'a | Panic string | Blocks

fun Export_string :: "js_value \<Rightarrow> string option" where
  "Export_string (JsString s) = Some s"
| "Export_string v = None"

definition Rpc ::
  "('m, 'g) libs \<Rightarrow> Context \<Rightarrow> string \<Rightarrow> (string \<rightharpoonup> string list) option \<Rightarrow> session \<Rightarrow> string \<Rightarrow>
   RuntimeProviderJS \<Rightarrow> (string \<times> error option \<times> Code) outcome \<times> RuntimeProviderJS" where
  "Rpc lb ctx ident queryParams ss payload rp =
     (case Get ctx rp of
        (CtxErr, rp1) \<Rightarrow> (Return ([], Some CtxError, Internal), rp1)
      | (Blocked, rp1) \<Rightarrow> (Blocks, rp1)
      | (Runtime r, rp1) \<Rightarrow>
          (case GetCallback r RuntimeExecutionModeRPC ident of
             None \<Rightarrow> (Return ([], Some ErrRuntimeRPCNotFound, NotFound), Put r rp1)
           | Some jsFn \<Rightarrow>
               (case InvokeFunction lb r RuntimeExecutionModeRPC ident jsFn queryParams ss
                       [PString payload] of
                  (retValue, err, code) \<Rightarrow>
                    (case err of
                       Some e \<Rightarrow> (Return ([], Some e, code), rp1)
                     | None \<Rightarrow>
                         (case retValue of
                            None \<Rightarrow>
                              (Panic ''invalid memory address or nil pointer dereference'', rp1)
                          | Some v \<Rightarrow>
                              (case Export_string v of
                                 None \<Rightarrow>
                                   (Return ([], Some (ErrorsNew ''Runtime function returned invalid data - only allowed one return value of type string.''), Internal), rp1)
                               | Some payload' \<Rightarrow> (Return (payload', None, code), rp1)))))))"

type_synonym addr = nat

definition BeforeRt ::
  "('m, 'g) libs \<Rightarrow> Context \<Rightarrow> string \<Rightarrow> session \<Rightarrow> addr \<Rightarrow> RuntimeProviderJS \<times> (addr \<Rightarrow> 'm) \<Rightarrow>
   (addr option \<times> error option) outcome \<times> RuntimeProviderJS \<times> (addr \<Rightarrow> 'm)" where
  "BeforeRt lb ctx ident ss envelope st =
     (case st of (rp, heap) \<Rightarrow>
      case Get ctx rp of
        (CtxErr, rp1) \<Rightarrow> (Return (None, Some CtxError), rp1, heap)
      | (Blocked, rp1) \<Rightarrow> (Blocks, rp1, heap)
      | (Runtime r, rp1) \<Rightarrow>
          (case GetCallback r RuntimeExecutionModeBefore ident of
             None \<Rightarrow>
               (Return (None, Some (ErrorsNew ''Runtime Before function not found.'')),
                Put r rp1, heap)
           | Some jsFn \<Rightarrow>
               (case MarshalToString lb (heap envelope) of
                  None \<Rightarrow>
                    (Return (None, Some (ErrorsNew ''Could not run runtime Before function.'')),
                     Put r rp1, heap)
                | Some envelopeJSON \<Rightarrow>
                    (case json_Unmarshal lb envelopeJSON of
                       None \<Rightarrow>
                         (Return (None, Some (ErrorsNew ''Could not run runtime Before function.'')),
                          Put r rp1, heap)
                     | Some envelopeMap \<Rightarrow>
                         (case InvokeFunction lb r RuntimeExecutionModeBefore ident jsFn None ss
                                 [PMap envelopeMap] of
                            (result, fnErr, code) \<Rightarrow>
                              let rp2 = Put r rp1 in
                              (case fnErr of
                                 Some e \<Rightarrow> (Return (None, Some e), rp2, heap)
                               | None \<Rightarrow>
                                   (case result of
                                      None \<Rightarrow> (Return (None, None), rp2, heap)
                                    | Some v \<Rightarrow>
                                        (case json_Marshal lb v of
                                           None \<Rightarrow>
                                             (Return (None, Some (ErrorsNew ''Could not complete runtime Before function.'')),
                                              rp2, heap)
                                         | Some resultJSON \<Rightarrow>
                                             (case jsonpb_Unmarshal lb resultJSON (heap envelope) of
                                                (ok, e') \<Rightarrow>
                                                  if \<not> ok then
                                                    (Return (None, Some (ErrorsNew ''Could not complete runtime Before function.'')),
                                                     rp2, fun_upd heap envelope e')
                                                  else
                                                    (Return (Some envelope, None),
                                                     rp2, fun_upd heap envelope e'))))))))))"

text \<open>
  The \<^verbatim>\<open>req interface{}\<close> argument of \<^verbatim>\<open>BeforeReq\<close>: nil, a value that is not a
  \<^verbatim>\<open>proto.Message\<close>, or a pointer to a message. \<open>marshal_req\<close> is the block under
  \<^verbatim>\<open>if req != nil\<close>: \<open>None\<close> where that block returns early, else \<^verbatim>\<open>reqMap\<close>.
\<close>

datatype req_arg = ReqNil | ReqOther | ReqMessage addr

fun marshal_req :: "('m, 'g) libs \<Rightarrow> (addr \<Rightarrow> 'm) \<Rightarrow> req_arg \<Rightarrow> 'g option option" where
  "marshal_req lb heap ReqNil = Some None"
| "marshal_req lb heap ReqOther = None"
| "marshal_req lb heap (ReqMessage a) =
     (case MarshalToString lb (heap a) of
        None \<Rightarrow> None
      | Some reqJSON \<Rightarrow> json_Unmarshal lb reqJSON)"

definition BeforeReq ::
  "('m, 'g) libs \<Rightarrow> Context \<Rightarrow> string \<Rightarrow> session \<Rightarrow> req_arg \<Rightarrow> RuntimeProviderJS \<times> (addr \<Rightarrow> 'm) \<Rightarrow>
   (req_arg \<times> error option \<times> Code) outcome \<times> RuntimeProviderJS \<times> (addr \<Rightarrow> 'm)" where
  "BeforeReq lb ctx ident ss req st =
     (case st of (rp, heap) \<Rightarrow>
      case Get ctx rp of
        (CtxErr, rp1) \<Rightarrow> (Return (ReqNil, Some CtxError, Internal), rp1, heap)
      | (Blocked, rp1) \<Rightarrow> (Blocks, rp1, heap)
      | (Runtime r, rp1) \<Rightarrow>
          (case GetCallback r RuntimeExecutionModeBefore ident of
             None \<Rightarrow>
               (Return (ReqNil, Some (ErrorsNew ''Runtime Before function not found.''), NotFound),
                Put r rp1, heap)
           | Some jsFn \<Rightarrow>
               (case marshal_req lb heap req of
                  None \<Rightarrow>
                    (Return (ReqNil, Some (ErrorsNew ''Could not run runtime Before function.''), Internal),
                     Put r rp1, heap)
                | Some reqMap \<Rightarrow>
                    (case InvokeFunction lb r RuntimeExecutionModeBefore ident jsFn None
                            (ss\<lparr>sessionID := []\<rparr>) [PMap reqMap] of
                       (result, fnErr, code) \<Rightarrow>
                         let rp2 = Put r rp1 in
                         (case fnErr of
                            Some e \<Rightarrow> (Return (ReqNil, Some e, code), rp2, heap)
                          | None \<Rightarrow>
                              if result = None \<or> reqMap = None
                              then (Return (ReqNil, None, OK), rp2, heap)
                              else
                                (case (result, req) of
                                   (Some v, ReqMessage a) \<Rightarrow>
                                     (case json_Marshal lb v of
                                        None \<Rightarrow>
                                          (Return (ReqNil, Some (ErrorsNew ''Could not complete runtime Before function.''), Internal),
                                           rp2, heap)
                                      | Some resultJSON \<Rightarrow>
                                          (case jsonpb_Unmarshal lb resultJSON (heap a) of
                                             (ok, m') \<Rightarrow>
                                               if \<not> ok then
                                                 (Return (ReqNil, Some (ErrorsNew ''Could not complete runtime Before function.''), Internal),
                                                  rp2, fun_upd heap a m')
                                               else (Return (req, None, OK), rp2, fun_upd heap a m')))
                                 | _ \<Rightarrow> (Panic ''nil message'', rp2, heap)))))))"

subsection \<open>Sample values\<close>

text \<open>A callback table, instances and libraries to run the definitions on.\<close>

definition sample_callbacks :: RuntimeJavascriptCallbacks where
  "sample_callbacks =
     \<lparr>cb_Rpc = [''echo'' \<mapsto> (\<lambda>args. Yields (Some (JsString ''pong''))),
                ''boom'' \<mapsto> (\<lambda>args. Throws ''Error: boom'' ''Error: boom at rpc''),
                ''void'' \<mapsto> (\<lambda>args. Yields (Some JsUndefined)),
                ''count'' \<mapsto> (\<lambda>args. Yields (Some (JsNumber 7)))],
      cb_Before = [''drop'' \<mapsto> (\<lambda>args. Yields (Some JsNull)),
                   ''edit'' \<mapsto> (\<lambda>args. Yields (Some (JsString ''edited''))),
                   ''boom'' \<mapsto> (\<lambda>args. Throws ''Error: boom'' ''Error: boom at before'')],
      cb_After = Map.empty\<rparr>"

definition sample_newFn :: "nat \<Rightarrow> RuntimeJS" where
  "sample_newFn i =
     \<lparr>vm = i, node = ''node1'', env = JsObject [], jsLoggerInst = JsObject [],
      nkInst = JsObject [], callbacks = sample_callbacks\<rparr>"

text \<open>
  Messages that are their own wire text: marshaling is the identity, the generic map of
  a text is the text, and a script string unmarshals to itself.
\<close>

definition sample_libs :: "(string, string) libs" where
  "sample_libs =
     \<lparr>MarshalToString = (\<lambda>m. Some m),
      json_Unmarshal = (\<lambda>j. Some (Some j)),
      map_ToValue = (\<lambda>g. case g of None \<Rightarrow> JsNull | Some j \<Rightarrow> JsString j),
      json_Marshal = (\<lambda>v. case v of JsString t \<Rightarrow> Some t | _ \<Rightarrow> None),
      jsonpb_Unmarshal = (\<lambda>j m. (True, j))\<rparr>"

definition sample_session :: session where
  "sample_session =
     \<lparr>userID = ''u1'', username = ''alice'', vars = None, expiry = 0, sessionID = ''s1'',
      clientIP = ''127.0.0.1'', clientPort = ''7350''\<rparr>"

definition ctx_live :: Context where
  "ctx_live = \<lparr>done_entry = False, done_wait = False, prefer_done = False\<rparr>"

definition ctx_cancelled :: Context where
  "ctx_cancelled = \<lparr>done_entry = True, done_wait = True, prefer_done = True\<rparr>"

definition module_a :: "unit RuntimeJSModule" where
  "module_a = \<lparr>Name = ''x.js'', Path = ''a/x.js'', Program = ()\<rparr>"

definition module_b :: "unit RuntimeJSModule" where
  "module_b = \<lparr>Name = ''x.js'', Path = ''b/x.js'', Program = ()\<rparr>"

definition module_c :: "unit RuntimeJSModule" where
  "module_c = \<lparr>Name = ''lib.js'', Path = ''lib.js'', Program = ()\<rparr>"

text \<open>
  The provider after the constructor with \<^verbatim>\<open>MinCount = MaxCount = 1\<close> and one module:
  one idle instance, no room to grow. \<open>sample_heap\<close> holds the same message at every
  address.
\<close>

definition sample_pool :: RuntimeProviderJS where
  "sample_pool =
     \<lparr>poolCh = [sample_newFn 0], poolCap = 1, maxCount = 1, currentCount = 1,
      newFn = sample_newFn, built = 1, warned = []\<rparr>"

definition sample_heap :: "addr \<Rightarrow> string" where
  "sample_heap a = ''orig''"

section \<open>Properties\<close>

subsection \<open>Module cache: names stay sorted\<close>

lemma add_all_snoc: "add_all (ms @ [m]) mc = Add m (add_all ms mc)"
  by (simp add: add_all_def)

lemma sort_sort_append: "sort (sort xs @ ys) = sort (xs @ ys)"
  by (rule properties_for_sort) simp_all

lemma Names_add_all: "Names (add_all ms empty_cache) = sort (map Name ms)"
proof (induction ms rule: rev_induct)
  case Nil
  show ?case by (simp add: add_all_def empty_cache_def)
next
  case (snoc m ms)
  then show ?case
    by (simp add: add_all_snoc Add_def Let_def sort_Strings_def sort_sort_append)
qed

lemma Modules_add_all: "Modules (add_all ms empty_cache) n = latest ms n"
proof (induction ms rule: rev_induct)
  case Nil
  show ?case by (simp add: add_all_def empty_cache_def latest_def)
next
  case (snoc m ms)
  then show ?case
    by (simp add: add_all_snoc Add_def Let_def latest_def)
qed

lemma latest_distinct:
  "distinct (map Name ms) \<Longrightarrow> m \<in> set ms \<Longrightarrow> latest ms (Name m) = Some m"
proof (induction ms rule: rev_induct)
  case Nil
  then show ?case by simp
next
  case (snoc x xs)
  then show ?case by (auto simp: latest_def)
qed

lemma sort_mset_cong: "mset xs = mset ys \<Longrightarrow> sort xs = sort (ys :: string list)"
  by (rule properties_for_sort) simp_all

text \<open>
  C8, as the code has it. After any run of \<^verbatim>\<open>Add\<close> calls on the empty cache (so after
  each call of the run), \<^verbatim>\<open>Names\<close> is the ascending sort of all names added so far,
  duplicates included, and is the same for every permutation of the additions. The
  mapping holds under each name the module added last under that name: each added
  module when the names are distinct.
\<close>

theorem Add_keeps_names_sorted:
  "Names (add_all ms empty_cache) = sort (map Name ms)
   \<and> sorted (Names (add_all ms empty_cache))
   \<and> (\<forall>n. Modules (add_all ms empty_cache) n = latest ms n)
   \<and> (distinct (map Name ms) \<longrightarrow> (\<forall>m \<in> set ms. Modules (add_all ms empty_cache) (Name m) = Some m))
   \<and> (\<forall>ms'. mset ms' = mset ms \<longrightarrow> Names (add_all ms' empty_cache) = Names (add_all ms empty_cache))"
proof (intro conjI allI impI ballI)
  show "Names (add_all ms empty_cache) = sort (map Name ms)" by (rule Names_add_all)
  show "sorted (Names (add_all ms empty_cache))" by (simp only: Names_add_all sorted_sort)
  show "Modules (add_all ms empty_cache) n = latest ms n" for n by (rule Modules_add_all)
  show "Modules (add_all ms empty_cache) (Name m) = Some m"
    if "distinct (map Name ms)" "m \<in> set ms" for m
    using that by (simp only: Modules_add_all latest_distinct)
  show "Names (add_all ms' empty_cache) = Names (add_all ms empty_cache)"
    if "mset ms' = mset ms" for ms'
  proof -
    from that have "image_mset Name (mset ms') = image_mset Name (mset ms)" by (rule arg_cong)
    then have "mset (map Name ms') = mset (map Name ms)" by (simp only: mset_map)
    then show ?thesis unfolding Names_add_all by (rule sort_mset_cong)
  qed
qed

theorem Add_keeps_names_sorted_witness:
  "Names (add_all [module_a, module_c] empty_cache) = [''lib.js'', ''x.js'']
   \<and> distinct (map Name [module_a, module_c])
   \<and> Modules (add_all [module_a, module_c] empty_cache) ''x.js'' = Some module_a
   \<and> mset [module_c, module_a] = mset [module_a, module_c]
   \<and> Names (add_all [module_c, module_a] empty_cache) = Names (add_all [module_a, module_c] empty_cache)"
proof -
  have d: "distinct (map Name [module_a, module_c])" by (simp add: module_a_def module_c_def)
  have p: "mset [module_c, module_a] = mset [module_a, module_c]" by simp
  have s: "sort (map Name [module_a, module_c]) = [''lib.js'', ''x.js'']"
    by (simp add: module_a_def module_c_def less_eq_char_def less_char_def)
  have n: "Name module_a = ''x.js''" by (simp add: module_a_def)
  from Add_keeps_names_sorted [of "[module_a, module_c]"] d p s n show ?thesis
    by (metis list.set_intros(1))
qed

text \<open>
  C8 as stated fails where two modules have the same name (\<^verbatim>\<open>filepath.Base\<close> of two
  paths in different directories): the second replaces the first in the mapping.
\<close>

theorem Add_same_name_counterexample:
  "Modules (add_all [module_a, module_b] empty_cache) (Name module_a) \<noteq> Some module_a"
  by (simp add: add_all_def Add_def Let_def empty_cache_def module_a_def module_b_def)

subsection \<open>Callback lookup\<close>

text \<open>
  C9. For every instance and key, \<^verbatim>\<open>GetCallback\<close> returns nil for the modes
  Matchmaker, TournamentEnd, TournamentReset and LeaderboardReset, and for RPC, Before
  and After the entry of the corresponding table under that key (nil when absent).
\<close>

theorem GetCallback_modes:
  "GetCallback r RuntimeExecutionModeMatchmaker key = None
   \<and> GetCallback r RuntimeExecutionModeTournamentEnd key = None
   \<and> GetCallback r RuntimeExecutionModeTournamentReset key = None
   \<and> GetCallback r RuntimeExecutionModeLeaderboardReset key = None
   \<and> GetCallback r RuntimeExecutionModeRPC key = cb_Rpc (callbacks r) key
   \<and> GetCallback r RuntimeExecutionModeBefore key = cb_Before (callbacks r) key
   \<and> GetCallback r RuntimeExecutionModeAfter key = cb_After (callbacks r) key"
  by simp

subsection \<open>Acquire and release\<close>

text \<open>
  C6. A call of \<^verbatim>\<open>Get\<close> whose context is already done either takes the idle
  instance at the head of the queue, or returns the context's error and leaves the pool
  as it was: the counter is not incremented, nothing is constructed, nothing leaves the
  idle queue.
\<close>

theorem Get_cancelled_takes_no_slot:
  assumes "done_entry ctx"
  shows "Get ctx rp = (CtxErr, rp)
       \<or> (\<exists>r rs. poolCh rp = r # rs \<and> Get ctx rp = (Runtime r, rp\<lparr>poolCh := rs\<rparr>))"
proof (cases "poolCh rp")
  case Nil
  with assms show ?thesis by (simp add: Get_def select_ready_def)
next
  case (Cons r rs)
  with assms show ?thesis by (simp add: Get_def select_ready_def)
qed

theorem Get_cancelled_takes_no_slot_witness:
  "done_entry ctx_cancelled
   \<and> Get ctx_cancelled sample_pool = (CtxErr, sample_pool)
   \<and> done_entry (ctx_cancelled\<lparr>prefer_done := False\<rparr>)
   \<and> Get (ctx_cancelled\<lparr>prefer_done := False\<rparr>) sample_pool
       = (Runtime (sample_newFn 0), sample_pool\<lparr>poolCh := []\<rparr>)
   \<and> Get ctx_cancelled (sample_pool\<lparr>poolCh := [], currentCount := 0\<rparr>)
       = (CtxErr, sample_pool\<lparr>poolCh := [], currentCount := 0\<rparr>)"
proof -
  have d: "done_entry ctx_cancelled" by (simp add: ctx_cancelled_def)
  have d': "done_entry (ctx_cancelled\<lparr>prefer_done := False\<rparr>)" by (simp add: ctx_cancelled_def)
  have q: "poolCh sample_pool = [sample_newFn 0]" by (simp add: sample_pool_def)
  have a: "fst (Get ctx_cancelled sample_pool) = CtxErr"
    by (simp add: Get_def select_ready_def ctx_cancelled_def sample_pool_def)
  have b: "fst (Get (ctx_cancelled\<lparr>prefer_done := False\<rparr>) sample_pool) \<noteq> CtxErr"
    by (simp add: Get_def select_ready_def ctx_cancelled_def sample_pool_def)
  have e: "poolCh (sample_pool\<lparr>poolCh := [], currentCount := 0\<rparr>) = []" by simp
  from Get_cancelled_takes_no_slot [OF d, of sample_pool] a
  have 1: "Get ctx_cancelled sample_pool = (CtxErr, sample_pool)" by auto
  from Get_cancelled_takes_no_slot [OF d', of sample_pool] b q
  have 2: "Get (ctx_cancelled\<lparr>prefer_done := False\<rparr>) sample_pool
       = (Runtime (sample_newFn 0), sample_pool\<lparr>poolCh := []\<rparr>)" by auto
  from Get_cancelled_takes_no_slot [OF d, of "sample_pool\<lparr>poolCh := [], currentCount := 0\<rparr>"] e
  have 3: "Get ctx_cancelled (sample_pool\<lparr>poolCh := [], currentCount := 0\<rparr>)
       = (CtxErr, sample_pool\<lparr>poolCh := [], currentCount := 0\<rparr>)" by auto
  from d d' 1 2 3 show ?thesis by blast
qed

text \<open>
  C7. \<^verbatim>\<open>Put\<close> always returns (it has no waiting outcome, and a caller that holds an
  instance is outside again after its release step). Below capacity the instance is
  appended to the idle queue; at capacity the queue is unchanged and a warning is
  logged. In both cases the counter, the limit, the capacity and the factory are
  unchanged.
\<close>

theorem Put_enqueues_or_discards:
  "(length (poolCh rp) < poolCap rp \<longrightarrow> Put r rp = rp\<lparr>poolCh := poolCh rp @ [r]\<rparr>)
   \<and> (poolCap rp \<le> length (poolCh rp) \<longrightarrow>
        poolCh (Put r rp) = poolCh rp
      \<and> warned (Put r rp) = warned rp @ [''Runtime pool full, discarding Lua runtime''])
   \<and> currentCount (Put r rp) = currentCount rp \<and> maxCount (Put r rp) = maxCount rp
   \<and> poolCap (Put r rp) = poolCap rp \<and> built (Put r rp) = built rp \<and> newFn (Put r rp) = newFn rp
   \<and> (t < length cs \<and> cs ! t = Holding r \<longrightarrow>
        step (Release t) (rp, cs) = (Put r rp, cs[t := Outside]))"
proof -
  have a: "length (poolCh rp) < poolCap rp \<longrightarrow> Put r rp = rp\<lparr>poolCh := poolCh rp @ [r]\<rparr>"
    unfolding Put_def by simp
  have b: "poolCap rp \<le> length (poolCh rp) \<longrightarrow>
        poolCh (Put r rp) = poolCh rp
      \<and> warned (Put r rp) = warned rp @ [''Runtime pool full, discarding Lua runtime'']"
    unfolding Put_def by simp
  have c: "currentCount (Put r rp) = currentCount rp" "maxCount (Put r rp) = maxCount rp"
    "poolCap (Put r rp) = poolCap rp" "built (Put r rp) = built rp" "newFn (Put r rp) = newFn rp"
    unfolding Put_def by simp_all
  have d: "t < length cs \<and> cs ! t = Holding r \<longrightarrow>
        step (Release t) (rp, cs) = (Put r rp, cs[t := Outside])"
    by simp
  from a b c d show ?thesis by blast
qed

theorem Put_enqueues_or_discards_witness:
  "length (poolCh \<lparr>poolCh = [], poolCap = 1, maxCount = 1, currentCount = 1,
        newFn = sample_newFn, built = 1, warned = []\<rparr>) < 1
   \<and> Put (sample_newFn 0) \<lparr>poolCh = [], poolCap = 1, maxCount = 1, currentCount = 1,
        newFn = sample_newFn, built = 1, warned = []\<rparr>
       = \<lparr>poolCh = [sample_newFn 0], poolCap = 1, maxCount = 1, currentCount = 1,
          newFn = sample_newFn, built = 1, warned = []\<rparr>
   \<and> (1::nat) \<le> length [sample_newFn 0]
   \<and> poolCh (Put (sample_newFn 1) \<lparr>poolCh = [sample_newFn 0], poolCap = 1, maxCount = 1,
        currentCount = 1, newFn = sample_newFn, built = 1, warned = []\<rparr>) = [sample_newFn 0]
   \<and> warned (Put (sample_newFn 1) \<lparr>poolCh = [sample_newFn 0], poolCap = 1, maxCount = 1,
        currentCount = 1, newFn = sample_newFn, built = 1, warned = []\<rparr>)
       = [''Runtime pool full, discarding Lua runtime'']
   \<and> currentCount (Put (sample_newFn 1) \<lparr>poolCh = [sample_newFn 0], poolCap = 1, maxCount = 1,
        currentCount = 1, newFn = sample_newFn, built = 1, warned = []\<rparr>) = 1
   \<and> step (Release 0) (\<lparr>poolCh = [sample_newFn 0], poolCap = 1, maxCount = 1,
        currentCount = 1, newFn = sample_newFn, built = 1, warned = []\<rparr>, [Holding (sample_newFn 1)])
       = (Put (sample_newFn 1) \<lparr>poolCh = [sample_newFn 0], poolCap = 1, maxCount = 1,
        currentCount = 1, newFn = sample_newFn, built = 1, warned = []\<rparr>, [Outside])"
proof -
  let ?empty = "\<lparr>poolCh = [], poolCap = 1, maxCount = 1, currentCount = 1,
        newFn = sample_newFn, built = 1, warned = []\<rparr>"
  let ?full = "\<lparr>poolCh = [sample_newFn 0], poolCap = 1, maxCount = 1, currentCount = 1,
        newFn = sample_newFn, built = 1, warned = []\<rparr>"
  have below: "length (poolCh ?empty) < poolCap ?empty" by simp
  have at_cap: "poolCap ?full \<le> length (poolCh ?full)" by simp
  have held: "0 < length [Holding (sample_newFn 1)] \<and> [Holding (sample_newFn 1)] ! 0 = Holding (sample_newFn 1)"
    by simp
  from Put_enqueues_or_discards [of ?empty "sample_newFn 0" 0 "[]"] below
  have e: "Put (sample_newFn 0) ?empty = ?empty\<lparr>poolCh := poolCh ?empty @ [sample_newFn 0]\<rparr>"
    by blast
  from Put_enqueues_or_discards [of ?full "sample_newFn 1" 0 "[Holding (sample_newFn 1)]"] at_cap held
  have f: "poolCh (Put (sample_newFn 1) ?full) = poolCh ?full"
    "warned (Put (sample_newFn 1) ?full) = warned ?full @ [''Runtime pool full, discarding Lua runtime'']"
    "currentCount (Put (sample_newFn 1) ?full) = currentCount ?full"
    "step (Release 0) (?full, [Holding (sample_newFn 1)])
       = (Put (sample_newFn 1) ?full, [Holding (sample_newFn 1)][0 := Outside])"
    by blast+
  from e f show ?thesis by simp
qed

subsection \<open>The pool under concurrent callers\<close>

lemma sum_list_map_update:
  "t < length cs \<Longrightarrow> sum_list (map f (cs[t := c])) + f (cs ! t) = sum_list (map f cs) + (f c :: nat)"
  by (induction cs arbitrary: t) (auto split: nat.splits)

lemma sum_loaded_le: "sum_list (map loaded cs) \<le> length cs"
proof (induction cs)
  case (Cons c cs) then show ?case by (cases c) auto
qed simp

lemma unat_Suc_word: "unat (c :: 32 word) + 1 < 2 ^ 32 \<Longrightarrow> unat (c + 1) = unat c + 1"
  by (simp add: unat_word_ariths unat_1 take_bit_nat_eq_self)

lemma get_step_inv:
  assumes I: "pool_inv d (rp, cs)" and t: "t < length cs" and g: "get_step dn k (cs ! t) rp = (c', rp')"
  shows "pool_inv d (rp', cs[t := c'])"
proof -
  note U = sum_list_map_update[OF t, of "admitted (maxCount rp)" c']
    sum_list_map_update[OF t, of loaded c'] sum_list_map_update[OF t, of holding c']
  show ?thesis
  proof (cases "cs ! t")
    case Outside
    with I g U sum_loaded_le[of cs] show ?thesis
      by (auto simp: pool_inv_def checked_out_def select_ready_def word_less_nat_alt word_le_nat_alt simp del: sum_list_eq_0_iff split: if_splits list.splits)
  next
    case Loaded
    have "loaded (cs ! t) \<le> sum_list (map loaded cs)"
      using sum_list_map_update[OF t, of loaded Outside] by simp
    with Loaded have pos: "0 < sum_list (map loaded cs)" by simp
    with I have le: "unat (currentCount rp) + sum_list (map loaded cs) \<le> unat (maxCount rp) + length cs"
      and bd: "unat (maxCount rp) + length cs < 2 ^ 32"
      by (simp_all add: pool_inv_def)
    from pos le bd have "unat (currentCount rp) + 1 < 2 ^ 32" by linarith
    then have inc: "unat (currentCount rp + 1) = unat (currentCount rp) + 1" by (rule unat_Suc_word)
    from g Loaded have c': "c' = Incremented (currentCount rp + 1)"
      and rp': "rp' = rp\<lparr>currentCount := currentCount rp + 1\<rparr>" by (auto simp: Let_def)
    from I U Loaded le bd pos inc show ?thesis unfolding c' rp'
      by (simp add: pool_inv_def checked_out_def word_le_nat_alt del: sum_list_eq_0_iff)
  next
    case (Incremented v)
    with I g U show ?thesis
      by (auto simp: pool_inv_def checked_out_def word_less_nat_alt word_le_nat_alt simp del: sum_list_eq_0_iff split: if_splits)
  next
    case Waiting
    with I g U show ?thesis
      by (auto simp: pool_inv_def checked_out_def select_ready_def simp del: sum_list_eq_0_iff split: if_splits list.splits)
  next
    case (Holding r)
    with I g U show ?thesis
      by (auto simp: pool_inv_def checked_out_def simp del: sum_list_eq_0_iff)
  qed
qed


lemma Put_inv:
  assumes I: "pool_inv d (rp, cs)" and t: "t < length cs" and h: "cs ! t = Holding r"
  shows "pool_inv d (Put r rp, cs[t := Outside])"
  using I h sum_list_map_update[OF t, of "admitted (maxCount rp)" Outside]
    sum_list_map_update[OF t, of loaded Outside] sum_list_map_update[OF t, of holding Outside]
  by (auto simp: pool_inv_def checked_out_def Put_def simp del: sum_list_eq_0_iff)

lemma Forget_inv:
  assumes I: "pool_inv d (rp, cs)" and t: "t < length cs" and h: "cs ! t = Holding r"
  shows "pool_inv d (rp, cs[t := Outside])"
  using I h sum_list_map_update[OF t, of "admitted (maxCount rp)" Outside]
    sum_list_map_update[OF t, of loaded Outside] sum_list_map_update[OF t, of holding Outside]
  by (auto simp: pool_inv_def checked_out_def simp del: sum_list_eq_0_iff)

lemma step_inv: "pool_inv d cfg \<Longrightarrow> pool_inv d (step a cfg)"
proof (cases cfg)
  case (Pair rp cs)
  assume I: "pool_inv d cfg"
  show ?thesis
  proof (cases a)
    case (Advance t dn k)
    show ?thesis
    proof (cases "t < length cs")
      case True
      obtain c' rp' where g: "get_step dn k (cs ! t) rp = (c', rp')" by (cases "get_step dn k (cs ! t) rp")
      from get_step_inv[OF I[unfolded Pair] True g] show ?thesis
        using Pair Advance True g by simp
    next
      case False with I Pair Advance show ?thesis by simp
    qed
  next
    case (Release t)
    with I Pair show ?thesis
      by (auto simp: Put_inv split: caller.splits)
  next
    case (Forget t)
    with I Pair show ?thesis
      by (auto simp: Forget_inv split: caller.splits)
  qed
qed

lemma run_inv: "pool_inv d cfg \<Longrightarrow> pool_inv d (run acts cfg)"
  unfolding run_def by (induction acts arbitrary: cfg) (auto simp: step_inv)

lemma get_step_maxCount: "get_step dn k c rp = (c', rp') \<Longrightarrow> maxCount rp' = maxCount rp"
  by (cases c) (auto simp: Let_def split: select_case.splits list.splits if_splits)

lemma step_maxCount: "maxCount (fst (step a cfg)) = maxCount (fst cfg)"
proof (cases cfg)
  case (Pair rp cs)
  show ?thesis
  proof (cases a)
    case (Advance t dn k)
    then show ?thesis using Pair
      by (cases "get_step dn k (cs ! t) rp") (auto dest: get_step_maxCount)
  next
    case (Release t) then show ?thesis using Pair by (auto simp: Put_def split: caller.splits)
  next
    case (Forget t) then show ?thesis using Pair by (auto split: caller.splits)
  qed
qed

lemma run_maxCount: "maxCount (fst (run acts cfg)) = maxCount (fst cfg)"
  unfolding run_def by (induction acts arbitrary: cfg) (auto simp: step_maxCount)

lemma sum_list_replicate_0: "sum_list (replicate n (0::nat)) = 0"
  by (induction n) auto

lemma unat_word_of_int_32: "0 \<le> i \<Longrightarrow> i < 2 ^ 32 \<Longrightarrow> unat (word_of_int i :: 32 word) = nat i"
  by (simp add: unat_eq_nat_uint uint_word_of_int take_bit_int_eq_self)

lemma init_inv:
  assumes new: "NewRuntimeProviderJS MinCount MaxCount names nf = Inr rp0"
      and bd: "MaxCount + int n < 2 ^ 32"
  shows "pool_inv 0 (rp0, replicate n Outside)"
proof -
  from new have nonneg: "0 \<le> MaxCount" by (auto simp: NewRuntimeProviderJS_def split: if_splits)
  with bd have M: "unat (word_of_int MaxCount :: 32 word) = nat MaxCount"
    by (intro unat_word_of_int_32) auto
  show ?thesis
  proof (cases "names \<noteq> [] \<and> 0 \<le> MinCount")
    case True
    with new have le: "MinCount \<le> MaxCount" by (auto simp: NewRuntimeProviderJS_def split: if_splits)
    with True bd have C: "unat (word_of_int MinCount :: 32 word) = nat MinCount"
      by (intro unat_word_of_int_32) auto
    from new True le M C bd nonneg show ?thesis
      by (auto simp: NewRuntimeProviderJS_def Let_def pool_inv_def checked_out_def sum_list_replicate_0 split: if_splits)
  next
    case False
    with new M bd nonneg show ?thesis
      by (auto simp: NewRuntimeProviderJS_def Let_def pool_inv_def checked_out_def sum_list_replicate_0 split: if_splits)
  qed
qed

lemma step_builds:
  assumes "step a (rp, cs) = (rp', cs')" "built rp' \<noteq> built rp"
  shows "\<exists>t dn k v. a = Advance t dn k \<and> t < length cs \<and> cs ! t = Incremented v
            \<and> v \<le> maxCount rp \<and> built rp' = Suc (built rp)"
proof (cases a)
  case (Advance t dn k)
  with assms have t: "t < length cs" by (auto split: if_splits)
  show ?thesis
  proof (cases "cs ! t")
    case (Incremented v)
    with assms Advance t show ?thesis by (auto split: if_splits)
  qed (use assms Advance t in \<open>auto simp: Let_def split: select_case.splits list.splits if_splits\<close>)
next
  case (Release t) with assms show ?thesis by (auto simp: Put_def split: if_splits caller.splits)
next
  case (Forget t) with assms show ?thesis by (auto split: if_splits caller.splits)
qed

text \<open>
  C1. Start from the provider as the constructor leaves it, with \<open>n\<close> callers, where
  \<^verbatim>\<open>MaxCount\<close> plus \<open>n\<close> stays below \<open>2 ^ 32\<close> (the counter is a \<^verbatim>\<open>uint32\<close>). After any
  interleaving of the callers' steps, the number of instances ever constructed is at
  most \<^verbatim>\<open>maxCount\<close>, the idle and checked-out instances are among them, and a step
  constructs an instance only for a caller whose \<^verbatim>\<open>Inc\<close> returned a value of at most
  \<^verbatim>\<open>maxCount\<close>. The counter itself may exceed \<^verbatim>\<open>maxCount\<close>, as the run below shows.
\<close>

theorem pool_never_over_allocates:
  assumes "NewRuntimeProviderJS MinCount MaxCount names nf = Inr rp0"
      and "MaxCount + int n < 2 ^ 32"
      and "run acts (rp0, replicate n Outside) = (rp, cs)"
  shows "built rp \<le> unat (maxCount rp) \<and> length (poolCh rp) + checked_out cs \<le> built rp
       \<and> (\<forall>a rp' cs'. step a (rp, cs) = (rp', cs') \<and> built rp' \<noteq> built rp \<longrightarrow>
            (\<exists>t dn k v. a = Advance t dn k \<and> t < length cs \<and> cs ! t = Incremented v
               \<and> v \<le> maxCount rp \<and> built rp' = Suc (built rp)))"
proof -
  have "pool_inv 0 (run acts (rp0, replicate n Outside))"
    using assms(1,2) by (intro run_inv init_inv)
  with assms(3) have "pool_inv 0 (rp, cs)" by simp
  then have "built rp \<le> unat (maxCount rp)" "length (poolCh rp) + checked_out cs \<le> built rp"
    by (simp_all add: pool_inv_def)
  then show ?thesis using step_builds by blast
qed

theorem pool_never_over_allocates_witness:
  "NewRuntimeProviderJS 0 1 [''a.js''] sample_newFn =
     Inr \<lparr>poolCh = [], poolCap = 1, maxCount = 1, currentCount = 0, newFn = sample_newFn,
          built = 0, warned = []\<rparr>
   \<and> (1::int) + int 2 < 2 ^ 32
   \<and> run [Advance 0 False False, Advance 1 False False, Advance 0 False False,
           Advance 1 False False, Advance 0 False False, Advance 1 False False]
          (\<lparr>poolCh = [], poolCap = 1, maxCount = 1, currentCount = 0, newFn = sample_newFn,
             built = 0, warned = []\<rparr>, replicate 2 Outside)
       = (\<lparr>poolCh = [], poolCap = 1, maxCount = 1, currentCount = 2, newFn = sample_newFn,
             built = 1, warned = []\<rparr>, [Holding (sample_newFn 0), Waiting])
   \<and> built \<lparr>poolCh = [], poolCap = 1, maxCount = 1, currentCount = 2, newFn = sample_newFn,
             built = 1, warned = []\<rparr>
       \<le> unat (maxCount \<lparr>poolCh = [], poolCap = 1, maxCount = 1, currentCount = 2,
             newFn = sample_newFn, built = 1, warned = []\<rparr>)
   \<and> maxCount \<lparr>poolCh = [], poolCap = 1, maxCount = 1, currentCount = 2,
             newFn = sample_newFn, built = 1, warned = []\<rparr>
       < currentCount \<lparr>poolCh = [], poolCap = 1, maxCount = 1, currentCount = 2,
             newFn = sample_newFn, built = 1, warned = []\<rparr>"
proof -
  let ?start = "\<lparr>poolCh = [], poolCap = 1, maxCount = 1, currentCount = 0, newFn = sample_newFn,
          built = 0, warned = []\<rparr>"
  let ?final = "\<lparr>poolCh = [], poolCap = 1, maxCount = 1, currentCount = 2, newFn = sample_newFn,
          built = 1, warned = []\<rparr>"
  have new: "NewRuntimeProviderJS 0 1 [''a.js''] sample_newFn = Inr ?start"
    by (simp add: NewRuntimeProviderJS_def Let_def)
  have bd: "(1::int) + int 2 < 2 ^ 32" by simp
  have two_callers: "replicate 2 Outside = [Outside, Outside]"
    by (simp add: numeral_2_eq_2)
  have r: "run [Advance 0 False False, Advance 1 False False, Advance 0 False False,
           Advance 1 False False, Advance 0 False False, Advance 1 False False]
          (?start, replicate 2 Outside) = (?final, [Holding (sample_newFn 0), Waiting])"
    unfolding two_callers by (simp add: run_def select_ready_def word_le_nat_alt word_less_nat_alt)
  from pool_never_over_allocates [OF new bd r] new bd r show ?thesis by simp
qed

text \<open>\<^verbatim>\<open>Get\<close> is the caller's steps run without another caller in between.\<close>

lemma wait_select_as_step:
  "wait_select ctx rp = returned (get_step (done_wait ctx) (prefer_done ctx) Waiting rp)"
  by (auto simp: wait_select_def select_ready_def split: list.splits)

lemma Get_as_steps:
  "Get ctx rp =
     (case get_step (done_entry ctx) (prefer_done ctx) Outside rp of
        (Loaded, rp1) \<Rightarrow>
          (case get_step (done_wait ctx) (prefer_done ctx) Loaded rp1 of (c2, rp2) \<Rightarrow>
           case get_step (done_wait ctx) (prefer_done ctx) c2 rp2 of
             (Waiting, rp3) \<Rightarrow> returned (get_step (done_wait ctx) (prefer_done ctx) Waiting rp3)
           | s3 \<Rightarrow> returned s3)
      | (Waiting, rp1) \<Rightarrow> returned (get_step (done_wait ctx) (prefer_done ctx) Waiting rp1)
      | s1 \<Rightarrow> returned s1)"
  by (auto simp: Get_def wait_select_as_step Let_def select_ready_def split: list.splits)





text \<open>
  Under the same bound, a caller that holds an instance finds room in the idle queue:
  the discard branch of \<^verbatim>\<open>Put\<close> is not taken in these runs.
\<close>

lemma get_step_poolCap: "get_step dn k c rp = (c', rp') \<Longrightarrow> poolCap rp' = poolCap rp"
  by (cases c) (auto simp: Let_def split: select_case.splits list.splits if_splits)

lemma step_poolCap: "poolCap (fst (step a cfg)) = poolCap (fst cfg)"
proof (cases cfg)
  case (Pair rp cs)
  show ?thesis
  proof (cases a)
    case (Advance t dn k)
    then show ?thesis using Pair
      by (cases "get_step dn k (cs ! t) rp") (auto dest: get_step_poolCap)
  next
    case (Release t) then show ?thesis using Pair by (auto simp: Put_def split: caller.splits)
  next
    case (Forget t) then show ?thesis using Pair by (auto split: caller.splits)
  qed
qed

lemma run_poolCap: "poolCap (fst (run acts cfg)) = poolCap (fst cfg)"
  unfolding run_def by (induction acts arbitrary: cfg) (auto simp: step_poolCap)

lemma release_finds_room:
  assumes new: "NewRuntimeProviderJS MinCount MaxCount names nf = Inr rp0"
      and bd: "MaxCount + int n < 2 ^ 32"
      and r: "run acts (rp0, replicate n Outside) = (rp, cs)"
      and t: "t < length cs" and h: "cs ! t = Holding x"
  shows "length (poolCh rp) < poolCap rp"
proof -
  from new have nonneg: "0 \<le> MaxCount" and cap0: "poolCap rp0 = nat MaxCount"
    and max0: "maxCount rp0 = word_of_int MaxCount"
    by (auto simp: NewRuntimeProviderJS_def Let_def split: if_splits)
  from nonneg bd have M: "unat (word_of_int MaxCount :: 32 word) = nat MaxCount"
    by (intro unat_word_of_int_32) auto
  have "pool_inv 0 (run acts (rp0, replicate n Outside))"
    using new bd by (intro run_inv init_inv)
  with r have I: "built rp \<le> unat (maxCount rp)" "length (poolCh rp) + checked_out cs \<le> built rp"
    by (simp_all add: pool_inv_def)
  have "holding (cs ! t) \<le> checked_out cs"
    unfolding checked_out_def using sum_list_map_update[OF t, of holding Outside] by simp
  with h have "1 \<le> checked_out cs" by simp
  moreover have "maxCount rp = maxCount rp0"
    using run_maxCount [of acts "(rp0, replicate n Outside)"] r by simp
  moreover have "poolCap rp = poolCap rp0"
    using run_poolCap [of acts "(rp0, replicate n Outside)"] r by simp
  ultimately show ?thesis using I cap0 max0 M by simp
qed

subsection \<open>Dispatching hooks\<close>

lemma InvokeFunction_Yields:
  "fn (call_args lb r m q ss ps) = Yields rv \<Longrightarrow>
   InvokeFunction lb r m ident fn q ss ps =
     (if rv = None \<or> rv = Some JsUndefined \<or> rv = Some JsNull then (None, None, OK)
      else (rv, None, OK))"
  by (simp add: InvokeFunction_def)

lemma InvokeFunction_no_error:
  "InvokeFunction lb r m ident fn q ss ps = (result, None, code) \<Longrightarrow>
   \<exists>rv. fn (call_args lb r m q ss ps) = Yields rv \<and> code = OK
      \<and> (if rv = None \<or> rv = Some JsUndefined \<or> rv = Some JsNull then result = None
          else result = rv)"
  by (auto simp: InvokeFunction_def split: call_result.splits if_splits)

lemma InvokeFunction_Throws:
  "fn (call_args lb r m q ss ps) = Throws msg st \<Longrightarrow>
   InvokeFunction lb r m ident fn q ss ps =
     (None, Some (JsErr (newJsExceptionError JsErrorException msg st)), Internal)"
  by (simp add: InvokeFunction_def)

lemma sample_pool_constructed:
  "NewRuntimeProviderJS 1 1 [''a.js''] sample_newFn = Inr sample_pool"
  by (simp add: NewRuntimeProviderJS_def Let_def sample_pool_def)

lemma Get_sample_pool:
  "Get ctx_live sample_pool = (Runtime (sample_newFn 0), sample_pool\<lparr>poolCh := []\<rparr>)"
  by (simp add: Get_def select_ready_def ctx_live_def sample_pool_def)

lemma Put_sample_pool: "Put (sample_newFn 0) (sample_pool\<lparr>poolCh := []\<rparr>) = sample_pool"
  by (simp add: Put_def sample_pool_def)

lemma sample_Before_edit:
  "GetCallback (sample_newFn 0) RuntimeExecutionModeBefore ''edit''
     = Some (\<lambda>args. Yields (Some (JsString ''edited'')))"
  by (simp add: sample_newFn_def sample_callbacks_def)

lemma sample_Before_drop:
  "GetCallback (sample_newFn 0) RuntimeExecutionModeBefore ''drop''
     = Some (\<lambda>args. Yields (Some JsNull))"
  by (simp add: sample_newFn_def sample_callbacks_def)

text \<open>
  C4. Where \<^verbatim>\<open>BeforeRt\<close> has its instance, its callback and the envelope as a generic
  map, and the script returns: if it returns nothing (nil, undefined or null),
  \<^verbatim>\<open>BeforeRt\<close> returns a nil envelope and a nil error and writes no message; if it
  returns a value whose JSON text unmarshals into the envelope, the envelope is
  overwritten with it and the same pointer is returned. Where \<^verbatim>\<open>BeforeRt\<close> returns a
  nil error, it is one of these two cases. The instance goes back to the pool.
\<close>

theorem BeforeRt_drop_or_overwrite:
  assumes "Get ctx rp = (Runtime r, rp1)"
      and "GetCallback r RuntimeExecutionModeBefore ident = Some jsFn"
      and "MarshalToString lb (heap envelope) = Some envelopeJSON"
      and "json_Unmarshal lb envelopeJSON = Some envelopeMap"
      and "jsFn (call_args lb r RuntimeExecutionModeBefore None ss [PMap envelopeMap]) = Yields rv"
  shows "(rv = None \<or> rv = Some JsUndefined \<or> rv = Some JsNull \<longrightarrow>
            BeforeRt lb ctx ident ss envelope (rp, heap) = (Return (None, None), Put r rp1, heap))
       \<and> (\<forall>v resultJSON e'.
              rv = Some v \<and> v \<noteq> JsUndefined \<and> v \<noteq> JsNull
            \<and> json_Marshal lb v = Some resultJSON
            \<and> jsonpb_Unmarshal lb resultJSON (heap envelope) = (True, e')
            \<longrightarrow> BeforeRt lb ctx ident ss envelope (rp, heap)
                  = (Return (Some envelope, None), Put r rp1, fun_upd heap envelope e'))
       \<and> (\<forall>ret rp' heap'.
              BeforeRt lb ctx ident ss envelope (rp, heap) = (Return (ret, None), rp', heap')
            \<longrightarrow> rp' = Put r rp1
              \<and> (((rv = None \<or> rv = Some JsUndefined \<or> rv = Some JsNull)
                    \<and> ret = None \<and> heap' = heap)
                 \<or> (\<exists>v resultJSON e'.
                       rv = Some v \<and> v \<noteq> JsUndefined \<and> v \<noteq> JsNull
                     \<and> json_Marshal lb v = Some resultJSON
                     \<and> jsonpb_Unmarshal lb resultJSON (heap envelope) = (True, e')
                     \<and> ret = Some envelope \<and> heap' = fun_upd heap envelope e')))"
proof -
  have inv: "InvokeFunction lb r RuntimeExecutionModeBefore ident jsFn None ss [PMap envelopeMap]
      = (if rv = None \<or> rv = Some JsUndefined \<or> rv = Some JsNull then (None, None, OK)
         else (rv, None, OK))"
    using assms(5) by (rule InvokeFunction_Yields)
  have run: "BeforeRt lb ctx ident ss envelope (rp, heap) =
      (if rv = None \<or> rv = Some JsUndefined \<or> rv = Some JsNull
       then (Return (None, None), Put r rp1, heap)
       else case rv of
              None \<Rightarrow> (Return (None, None), Put r rp1, heap)
            | Some v \<Rightarrow>
                (case json_Marshal lb v of
                   None \<Rightarrow>
                     (Return (None, Some (ErrorsNew ''Could not complete runtime Before function.'')),
                      Put r rp1, heap)
                 | Some resultJSON \<Rightarrow>
                     (case jsonpb_Unmarshal lb resultJSON (heap envelope) of
                        (ok, e') \<Rightarrow>
                          if \<not> ok then
                            (Return (None, Some (ErrorsNew ''Could not complete runtime Before function.'')),
                             Put r rp1, fun_upd heap envelope e')
                          else (Return (Some envelope, None), Put r rp1, fun_upd heap envelope e'))))"
    using assms(1-4) inv by (simp add: BeforeRt_def Let_def)
  have a: "rv = None \<or> rv = Some JsUndefined \<or> rv = Some JsNull \<longrightarrow>
            BeforeRt lb ctx ident ss envelope (rp, heap) = (Return (None, None), Put r rp1, heap)"
    using run by simp
  have b: "\<forall>v resultJSON e'.
              rv = Some v \<and> v \<noteq> JsUndefined \<and> v \<noteq> JsNull
            \<and> json_Marshal lb v = Some resultJSON
            \<and> jsonpb_Unmarshal lb resultJSON (heap envelope) = (True, e')
            \<longrightarrow> BeforeRt lb ctx ident ss envelope (rp, heap)
                  = (Return (Some envelope, None), Put r rp1, fun_upd heap envelope e')"
    using run by simp
  have c: "\<forall>ret rp' heap'.
              BeforeRt lb ctx ident ss envelope (rp, heap) = (Return (ret, None), rp', heap')
            \<longrightarrow> rp' = Put r rp1
              \<and> (((rv = None \<or> rv = Some JsUndefined \<or> rv = Some JsNull)
                    \<and> ret = None \<and> heap' = heap)
                 \<or> (\<exists>v resultJSON e'.
                       rv = Some v \<and> v \<noteq> JsUndefined \<and> v \<noteq> JsNull
                     \<and> json_Marshal lb v = Some resultJSON
                     \<and> jsonpb_Unmarshal lb resultJSON (heap envelope) = (True, e')
                     \<and> ret = Some envelope \<and> heap' = fun_upd heap envelope e'))"
    unfolding run by (auto split: option.splits prod.splits if_splits)
  from a b c show ?thesis by blast
qed

theorem BeforeRt_drop_or_overwrite_witness:
  "BeforeRt sample_libs ctx_live ''drop'' sample_session 0 (sample_pool, sample_heap)
     = (Return (None, None), sample_pool, sample_heap)
   \<and> BeforeRt sample_libs ctx_live ''edit'' sample_session 0 (sample_pool, sample_heap)
     = (Return (Some 0, None), sample_pool, fun_upd sample_heap 0 ''edited'')"
proof -
  have m: "MarshalToString sample_libs (sample_heap 0) = Some ''orig''"
    by (simp add: sample_libs_def sample_heap_def)
  have u: "json_Unmarshal sample_libs ''orig'' = Some (Some ''orig'')"
    by (simp add: sample_libs_def)
  have d: "(\<lambda>args. Yields (Some JsNull))
      (call_args sample_libs (sample_newFn 0) RuntimeExecutionModeBefore None sample_session
         [PMap (Some ''orig'')]) = Yields (Some JsNull)" by simp
  have e: "(\<lambda>args. Yields (Some (JsString ''edited'')))
      (call_args sample_libs (sample_newFn 0) RuntimeExecutionModeBefore None sample_session
         [PMap (Some ''orig'')]) = Yields (Some (JsString ''edited''))" by simp
  have jm: "json_Marshal sample_libs (JsString ''edited'') = Some ''edited''"
    by (simp add: sample_libs_def)
  have ju: "jsonpb_Unmarshal sample_libs ''edited'' (sample_heap 0) = (True, ''edited'')"
    by (simp add: sample_libs_def)
  note drop = BeforeRt_drop_or_overwrite
         [where ctx = ctx_live and rp = sample_pool and r = "sample_newFn 0"
            and ?rp1.0 = "sample_pool\<lparr>poolCh := []\<rparr>" and ident = "''drop''"
            and jsFn = "\<lambda>args. Yields (Some JsNull)" and lb = sample_libs
            and heap = sample_heap and envelope = 0 and envelopeJSON = "''orig''"
            and envelopeMap = "Some ''orig''" and ss = sample_session and rv = "Some JsNull",
          OF Get_sample_pool sample_Before_drop m u d]
  note edit = BeforeRt_drop_or_overwrite
         [where ctx = ctx_live and rp = sample_pool and r = "sample_newFn 0"
            and ?rp1.0 = "sample_pool\<lparr>poolCh := []\<rparr>" and ident = "''edit''"
            and jsFn = "\<lambda>args. Yields (Some (JsString ''edited''))" and lb = sample_libs
            and heap = sample_heap and envelope = 0 and envelopeJSON = "''orig''"
            and envelopeMap = "Some ''orig''" and ss = sample_session
            and rv = "Some (JsString ''edited'')",
          OF Get_sample_pool sample_Before_edit m u e]
  from drop [THEN conjunct1]
  have 1: "BeforeRt sample_libs ctx_live ''drop'' sample_session 0 (sample_pool, sample_heap)
     = (Return (None, None), sample_pool, sample_heap)"
    by (simp add: Put_sample_pool)
  from edit [THEN conjunct2, THEN conjunct1, rule_format,
             of "JsString ''edited''" "''edited''" "''edited''"] jm ju
  have 2: "BeforeRt sample_libs ctx_live ''edit'' sample_session 0 (sample_pool, sample_heap)
     = (Return (Some 0, None), sample_pool, fun_upd sample_heap 0 ''edited'')"
    by (simp add: Put_sample_pool)
  from 1 2 show ?thesis by simp
qed

text \<open>
  C5. With a nil request, \<^verbatim>\<open>BeforeReq\<close> never returns a request and writes no message;
  whatever the script returns, the result is nil with a nil error and status OK.
\<close>

theorem BeforeReq_nil_request_no_projection:
  "(\<forall>res e c. fst (BeforeReq lb ctx ident ss ReqNil (rp, heap)) = Return (res, e, c) \<longrightarrow> res = ReqNil)
   \<and> snd (snd (BeforeReq lb ctx ident ss ReqNil (rp, heap))) = heap
   \<and> (\<forall>r rp1 jsFn rv.
         Get ctx rp = (Runtime r, rp1)
       \<and> GetCallback r RuntimeExecutionModeBefore ident = Some jsFn
       \<and> jsFn (call_args lb r RuntimeExecutionModeBefore None (ss\<lparr>sessionID := []\<rparr>) [PMap None])
           = Yields rv
       \<longrightarrow> BeforeReq lb ctx ident ss ReqNil (rp, heap) = (Return (ReqNil, None, OK), Put r rp1, heap))"
proof (intro conjI allI impI)
  fix res e c
  assume "fst (BeforeReq lb ctx ident ss ReqNil (rp, heap)) = Return (res, e, c)"
  then show "res = ReqNil"
    by (auto simp: BeforeReq_def Let_def split: prod.splits acquired.splits option.splits if_splits)
next
  show "snd (snd (BeforeReq lb ctx ident ss ReqNil (rp, heap))) = heap"
    by (auto simp: BeforeReq_def Let_def split: prod.splits acquired.splits option.splits if_splits)
next
  fix r rp1 jsFn rv
  assume a: "Get ctx rp = (Runtime r, rp1)
       \<and> GetCallback r RuntimeExecutionModeBefore ident = Some jsFn
       \<and> jsFn (call_args lb r RuntimeExecutionModeBefore None (ss\<lparr>sessionID := []\<rparr>) [PMap None])
           = Yields rv"
  then have "InvokeFunction lb r RuntimeExecutionModeBefore ident jsFn None (ss\<lparr>sessionID := []\<rparr>)
      [PMap None] = (if rv = None \<or> rv = Some JsUndefined \<or> rv = Some JsNull then (None, None, OK)
      else (rv, None, OK))"
    by (intro InvokeFunction_Yields) simp
  with a show "BeforeReq lb ctx ident ss ReqNil (rp, heap) = (Return (ReqNil, None, OK), Put r rp1, heap)"
    by (auto simp: BeforeReq_def Let_def)
qed

theorem BeforeReq_nil_request_no_projection_witness:
  "BeforeReq sample_libs ctx_live ''edit'' sample_session ReqNil (sample_pool, sample_heap)
     = (Return (ReqNil, None, OK), sample_pool, sample_heap)"
proof -
  have e: "(\<lambda>args. Yields (Some (JsString ''edited'')))
      (call_args sample_libs (sample_newFn 0) RuntimeExecutionModeBefore None
         (sample_session\<lparr>sessionID := []\<rparr>) [PMap None]) = Yields (Some (JsString ''edited''))"
    by simp
  from BeforeReq_nil_request_no_projection
         [of sample_libs ctx_live "''edit''" sample_session sample_pool sample_heap]
       Get_sample_pool sample_Before_edit e
  have "BeforeReq sample_libs ctx_live ''edit'' sample_session ReqNil (sample_pool, sample_heap)
     = (Return (ReqNil, None, OK), Put (sample_newFn 0) (sample_pool\<lparr>poolCh := []\<rparr>), sample_heap)"
    by blast
  then show ?thesis by (simp add: Put_sample_pool)
qed

text \<open>
  C2. An uncaught script exception is reported with status Internal, but \<^verbatim>\<open>Rpc\<close> does
  not return its instance: after the invocation it returns without \<^verbatim>\<open>Put\<close>, on the
  error path and on the success path alike. On a provider with one instance and no room
  to grow, the idle queue is empty after either call and the next \<^verbatim>\<open>Get\<close> waits.
  \<^verbatim>\<open>BeforeRt\<close>, on the same exception, leaves the pool as it found it.
\<close>

theorem Rpc_keeps_the_instance:
  "NewRuntimeProviderJS 1 1 [''a.js''] sample_newFn = Inr sample_pool
   \<and> Rpc sample_libs ctx_live ''boom'' None sample_session ''{}'' sample_pool
     = (Return ([], Some (JsErr \<lparr>StackTrace = ''Error: boom at rpc'', Type = ''exception'',
                                   Message = [], error_text = ''Error: boom''\<rparr>), Internal),
        sample_pool\<lparr>poolCh := []\<rparr>)
   \<and> Rpc sample_libs ctx_live ''echo'' None sample_session ''{}'' sample_pool
     = (Return (''pong'', None, OK), sample_pool\<lparr>poolCh := []\<rparr>)
   \<and> Get ctx_live (sample_pool\<lparr>poolCh := []\<rparr>) = (Blocked, sample_pool\<lparr>poolCh := []\<rparr>)
   \<and> BeforeRt sample_libs ctx_live ''boom'' sample_session 0 (sample_pool, sample_heap)
     = (Return (None, Some (JsErr \<lparr>StackTrace = ''Error: boom at before'', Type = ''exception'',
                                   Message = [], error_text = ''Error: boom''\<rparr>)),
        sample_pool, sample_heap)"
proof -
  have boom: "cb_Rpc (callbacks (sample_newFn 0)) ''boom''
      = Some (\<lambda>args. Throws ''Error: boom'' ''Error: boom at rpc'')"
    by (simp add: sample_newFn_def sample_callbacks_def)
  have echo: "cb_Rpc (callbacks (sample_newFn 0)) ''echo''
      = Some (\<lambda>args. Yields (Some (JsString ''pong'')))"
    by (simp add: sample_newFn_def sample_callbacks_def)
  have bboom: "cb_Before (callbacks (sample_newFn 0)) ''boom''
      = Some (\<lambda>args. Throws ''Error: boom'' ''Error: boom at before'')"
    by (simp add: sample_newFn_def sample_callbacks_def)
  have 1: "Rpc sample_libs ctx_live ''boom'' None sample_session ''{}'' sample_pool
     = (Return ([], Some (JsErr \<lparr>StackTrace = ''Error: boom at rpc'', Type = ''exception'',
                                   Message = [], error_text = ''Error: boom''\<rparr>), Internal),
        sample_pool\<lparr>poolCh := []\<rparr>)"
    by (simp add: Rpc_def Get_sample_pool boom InvokeFunction_def newJsExceptionError_def)
  have 2: "Rpc sample_libs ctx_live ''echo'' None sample_session ''{}'' sample_pool
     = (Return (''pong'', None, OK), sample_pool\<lparr>poolCh := []\<rparr>)"
    by (simp add: Rpc_def Get_sample_pool echo InvokeFunction_def)
  have 3: "Get ctx_live (sample_pool\<lparr>poolCh := []\<rparr>) = (Blocked, sample_pool\<lparr>poolCh := []\<rparr>)"
    by (simp add: Get_def wait_select_def select_ready_def ctx_live_def sample_pool_def)
  have 4: "BeforeRt sample_libs ctx_live ''boom'' sample_session 0 (sample_pool, sample_heap)
     = (Return (None, Some (JsErr \<lparr>StackTrace = ''Error: boom at before'', Type = ''exception'',
                                   Message = [], error_text = ''Error: boom''\<rparr>)),
        sample_pool, sample_heap)"
    by (simp add: BeforeRt_def Get_sample_pool bboom InvokeFunction_def newJsExceptionError_def
          Put_sample_pool sample_libs_def)
  from sample_pool_constructed 1 2 3 4 show ?thesis by simp
qed

text \<open>
  C3. A registered RPC callback that returns undefined reaches \<^verbatim>\<open>retValue.Export()\<close>
  with the nil value that \<^verbatim>\<open>InvokeFunction\<close> returns for it: \<^verbatim>\<open>Rpc\<close> panics instead
  of returning an error with status Internal.
\<close>

theorem Rpc_undefined_return_panics:
  "Rpc sample_libs ctx_live ''void'' None sample_session ''{}'' sample_pool
     = (Panic ''invalid memory address or nil pointer dereference'', sample_pool\<lparr>poolCh := []\<rparr>)"
proof -
  have void: "cb_Rpc (callbacks (sample_newFn 0)) ''void''
      = Some (\<lambda>args. Yields (Some JsUndefined))"
    by (simp add: sample_newFn_def sample_callbacks_def)
  show ?thesis
    by (simp add: Rpc_def Get_sample_pool void InvokeFunction_def)
qed

text \<open>
  The rest of \<^verbatim>\<open>Rpc\<close>: an unregistered id gives \<^verbatim>\<open>ErrRuntimeRPCNotFound\<close> with status
  NotFound (and the instance goes back), a returned value that is not a string gives an
  error with status Internal, and a nil, undefined or null return panics. Once the
  callback is found, the pool stays as \<^verbatim>\<open>Get\<close> left it.
\<close>

lemma Rpc_not_registered:
  assumes "Get ctx rp = (Runtime r, rp1)"
      and "GetCallback r RuntimeExecutionModeRPC ident = None"
  shows "Rpc lb ctx ident q ss payload rp
           = (Return ([], Some ErrRuntimeRPCNotFound, NotFound), Put r rp1)"
  using assms by (simp add: Rpc_def)

lemma Rpc_non_string:
  assumes "Get ctx rp = (Runtime r, rp1)"
      and "GetCallback r RuntimeExecutionModeRPC ident = Some jsFn"
      and "jsFn (call_args lb r RuntimeExecutionModeRPC q ss [PString payload]) = Yields (Some v)"
      and "v \<noteq> JsUndefined" and "v \<noteq> JsNull" and "Export_string v = None"
  shows "Rpc lb ctx ident q ss payload rp
           = (Return ([], Some (ErrorsNew ''Runtime function returned invalid data - only allowed one return value of type string.''), Internal), rp1)"
  using assms by (simp add: Rpc_def InvokeFunction_def)

lemma Rpc_nil_return:
  assumes "Get ctx rp = (Runtime r, rp1)"
      and "GetCallback r RuntimeExecutionModeRPC ident = Some jsFn"
      and "jsFn (call_args lb r RuntimeExecutionModeRPC q ss [PString payload]) = Yields rv"
      and "rv = None \<or> rv = Some JsUndefined \<or> rv = Some JsNull"
  shows "Rpc lb ctx ident q ss payload rp
           = (Panic ''invalid memory address or nil pointer dereference'', rp1)"
  using assms by (auto simp: Rpc_def InvokeFunction_def)

lemma Rpc_after_invocation_no_Put:
  assumes "Get ctx rp = (Runtime r, rp1)"
      and "GetCallback r RuntimeExecutionModeRPC ident = Some jsFn"
  shows "snd (Rpc lb ctx ident q ss payload rp) = rp1"
  using assms
  by (auto simp: Rpc_def split: prod.splits option.splits)

end
